theory Spec2Isabelle
  imports Main "HOL-Library.AList"
begin

section \<open>The loader factory of \<open>loaders/loaders.py\<close>\<close>

subsection \<open>Values, errors and standard output\<close>

text \<open>
  The argument handed to the factory's constructor and to the setter of
  \<open>target_file_exts\<close>: Python's \<open>None\<close>, a bare string, or a collection of
  extension strings.
\<close>

datatype py_exts = PyNone | PyStr string | PyList "string list"

text \<open>Python's truth value of such an argument (\<open>not target_file_exts\<close> is its negation).\<close>

fun truthy :: "py_exts \<Rightarrow> bool" where
  "truthy PyNone = False"
| "truthy (PyStr s) = (s \<noteq> [])"
| "truthy (PyList xs) = (xs \<noteq> [])"

text \<open>
  The two exceptions of the module. \<open>NoLoaderFoundError\<close> carries the attribute
  \<open>file_extension\<close> and its message, \<open>NoTargetFileExtensionsError\<close> its message.
\<close>

datatype error =
    NoLoaderFoundError string string
  | NoTargetFileExtensionsError string

text \<open>
  Standard output is the list of the lines printed so far. The constructor of the base
  class \<open>LoaderError\<close> prints the message it is given.
\<close>

type_synonym stdout = "string list"

definition LoaderError_init :: "string \<Rightarrow> stdout \<Rightarrow> stdout" where
  "LoaderError_init msg out = out @ [msg]"

definition NoLoaderFoundError_msg :: "string \<Rightarrow> string" where
  "NoLoaderFoundError_msg file_extension =
     ''No loader found for file extension `'' @ file_extension @ ''` in LoaderFactory.''"

definition NoLoaderFoundError_init :: "string \<Rightarrow> stdout \<Rightarrow> error \<times> stdout" where
  "NoLoaderFoundError_init file_extension out =
     (NoLoaderFoundError file_extension (NoLoaderFoundError_msg file_extension),
      LoaderError_init (NoLoaderFoundError_msg file_extension) out)"

definition NoTargetFileExtensionsError_msg :: string where
  "NoTargetFileExtensionsError_msg =
     ''The LoaderFactory'' @ [CHR 0x27] @ ''s `target_file_extensions` attribute must not be empty.''"

definition NoTargetFileExtensionsError_init :: "stdout \<Rightarrow> error \<times> stdout" where
  "NoTargetFileExtensionsError_init out =
     (NoTargetFileExtensionsError NoTargetFileExtensionsError_msg,
      LoaderError_init NoTargetFileExtensionsError_msg out)"

subsection \<open>Loader classes\<close>

text \<open>
  The state of a \<open>configparser.ConfigParser\<close>: its sections in insertion order, each
  with its options in insertion order.
\<close>

type_synonym ini_options = "(string \<times> string) list"

record ConfigParser =
  sections :: "(string \<times> ini_options) list"

definition ConfigParser_init :: ConfigParser where
  "ConfigParser_init = \<lparr>sections = []\<rparr>"

text \<open>The subclasses of \<open>Loader\<close>, and their class attribute \<open>_SUPPORTED_EXTS\<close>.\<close>

datatype loader_class = YamlLoader | IniLoader

fun SUPPORTED_EXTS :: "loader_class \<Rightarrow> string list" where
  "SUPPORTED_EXTS YamlLoader = [''.yml'', ''.yaml'']"
| "SUPPORTED_EXTS IniLoader = [''.ini'', ''.config'']"

text \<open>\<open>Loader.__subclasses__()\<close>: the direct subclasses in the order of their definition.\<close>

definition Loader_subclasses :: "loader_class list" where
  "Loader_subclasses = [YamlLoader, IniLoader]"

text \<open>
  \<open>check_extension_supported\<close> returns \<open>True\<close> when the extension is in
  \<open>_SUPPORTED_EXTS\<close>; otherwise the body falls off its end and Python returns \<open>None\<close>.
  The returned value is a \<open>bool option\<close>, \<open>None\<close> standing for Python's \<open>None\<close>.
\<close>

definition check_extension_supported :: "loader_class \<Rightarrow> string \<Rightarrow> bool option" where
  "check_extension_supported cls file_ext =
     (if file_ext \<in> set (SUPPORTED_EXTS cls) then Some True else None)"

text \<open>The truth value an \<open>if\<close> statement gives to such a returned value.\<close>

fun py_bool :: "bool option \<Rightarrow> bool" where
  "py_bool None = False"
| "py_bool (Some b) = b"

text \<open>
  Loader instances. A \<open>YamlLoader\<close> has no attribute; an \<open>IniLoader\<close> holds the
  parser its constructor created in \<open>self.config\<close>.
\<close>

datatype loader = YamlLoader_obj | IniLoader_obj ConfigParser

fun class_of :: "loader \<Rightarrow> loader_class" where
  "class_of YamlLoader_obj = YamlLoader"
| "class_of (IniLoader_obj config) = IniLoader"

definition IniLoader_init :: loader where
  "IniLoader_init = IniLoader_obj ConfigParser_init"

text \<open>The call \<open>loader()\<close> of a class.\<close>

fun instantiate :: "loader_class \<Rightarrow> loader" where
  "instantiate YamlLoader = YamlLoader_obj"
| "instantiate IniLoader = IniLoader_init"

subsection \<open>LoaderFactory\<close>

record LoaderFactory =
  target_file_exts :: "string list"

text \<open>
  The setter of \<open>target_file_exts\<close>. It returns the outcome (an exception or nothing),
  the factory after the call and standard output after the call. A falsy argument
  raises before anything is assigned; a string is wrapped into a list; a collection is
  stored as it is. The case \<open>PyNone\<close> of the second branch is never reached, since
  \<open>None\<close> is falsy.
\<close>

definition target_file_exts_setter ::
  "LoaderFactory \<Rightarrow> py_exts \<Rightarrow> stdout \<Rightarrow> (error + unit) \<times> LoaderFactory \<times> stdout" where
  "target_file_exts_setter self arg out =
     (if \<not> truthy arg then
        (case NoTargetFileExtensionsError_init out of (e, out') \<Rightarrow> (Inl e, self, out'))
      else
        (case arg of
           PyStr s \<Rightarrow> (Inr (), self\<lparr>target_file_exts := [s]\<rparr>, out)
         | PyList xs \<Rightarrow> (Inr (), self\<lparr>target_file_exts := xs\<rparr>, out)
         | PyNone \<Rightarrow> (Inr (), self, out)))"

text \<open>
  The constructor runs the setter on the new object. The object has no attribute yet;
  the empty list below stands for that and is never observed: either the setter
  overwrites it, or the constructor raises and no object is returned.
\<close>

definition LoaderFactory_init :: "py_exts \<Rightarrow> stdout \<Rightarrow> (error + LoaderFactory) \<times> stdout" where
  "LoaderFactory_init arg out =
     (case target_file_exts_setter \<lparr>target_file_exts = []\<rparr> arg out of
        (Inl e, self, out') \<Rightarrow> (Inl e, out')
      | (Inr u, self, out') \<Rightarrow> (Inr self, out'))"

text \<open>The \<open>for\<close> loop of \<open>get_loader\<close>: the first class whose check is true.\<close>

fun find_loader :: "loader_class list \<Rightarrow> string \<Rightarrow> loader_class option" where
  "find_loader [] file_ext = None"
| "find_loader (cls # rest) file_ext =
     (if py_bool (check_extension_supported cls file_ext) then Some cls
      else find_loader rest file_ext)"

text \<open>
  \<open>get_loader\<close>, with the value of \<open>Loader.__subclasses__()\<close> at the time of the call as
  its first argument. The result is \<open>Inr None\<close> for Python's \<open>None\<close>, \<open>Inr (Some l)\<close>
  for a loader instance and \<open>Inl e\<close> for a raised exception.
\<close>

definition get_loader ::
  "loader_class list \<Rightarrow> LoaderFactory \<Rightarrow> string \<Rightarrow> stdout \<Rightarrow> (error + loader option) \<times> stdout" where
  "get_loader subclasses self file_ext out =
     (if file_ext \<notin> set (target_file_exts self) then (Inr None, out)
      else
        (case find_loader subclasses file_ext of
           Some cls \<Rightarrow> (Inr (Some (instantiate cls)), out)
         | None \<Rightarrow>
             (case NoLoaderFoundError_init file_ext out of (e, out') \<Rightarrow> (Inl e, out'))))"

section \<open>The INI loader\<close>

subsection \<open>Strings\<close>

text \<open>
  A \<open>string\<close> stands for a Python \<open>str\<close> over the code points below 256. The
  functions below are \<open>str.isspace\<close> on one character, \<open>str.lstrip\<close>,
  \<open>str.rstrip\<close>, \<open>str.strip\<close> and \<open>str.lower\<close> on these code points.
\<close>

definition isspace :: "char \<Rightarrow> bool" where
  "isspace c = (c \<in> set [CHR 0x09, CHR 0x0A, CHR 0x0B, CHR 0x0C, CHR 0x0D,
                            CHR 0x1C, CHR 0x1D, CHR 0x1E, CHR 0x1F, CHR 0x20,
                            CHR 0x85, CHR 0xA0])"

definition lstrip :: "string \<Rightarrow> string" where
  "lstrip s = dropWhile isspace s"

definition rstrip :: "string \<Rightarrow> string" where
  "rstrip s = rev (dropWhile isspace (rev s))"

definition strip :: "string \<Rightarrow> string" where
  "strip s = lstrip (rstrip s)"

definition lower_char :: "char \<Rightarrow> char" where
  "lower_char c =
     (let n = (of_char c :: nat) in
      if (65 \<le> n \<and> n \<le> 90) \<or> (192 \<le> n \<and> n \<le> 222 \<and> n \<noteq> 215)
      then char_of (n + 32) else c)"

definition lower :: "string \<Rightarrow> string" where
  "lower s = map lower_char s"

text \<open>
  The lines a text file or an \<open>io.StringIO\<close> yields when iterated, each without its
  line terminator \<open>\n\<close>.
\<close>

fun lines_of :: "string \<Rightarrow> string list" where
  "lines_of [] = []"
| "lines_of (c # cs) =
     (if c = CHR 0x0A then [] # lines_of cs
      else (case lines_of cs of [] \<Rightarrow> [[c]] | l # ls \<Rightarrow> (c # l) # ls))"

subsection \<open>\<open>configparser.ConfigParser\<close>\<close>

text \<open>
  The parser is Python's standard library, not code of the repository. The definitions
  below follow \<open>RawConfigParser._read\<close>, \<open>read\<close>, \<open>read_string\<close>, \<open>sections\<close>,
  \<open>options\<close> and \<open>get\<close> of CPython 3.11 for a parser made by \<open>ConfigParser()\<close> (strict,
  delimiters \<open>=\<close> and \<open>:\<close>, comment prefixes \<open>#\<close> and \<open>;\<close>, no inline comments, no
  valueless options), on this fragment of its input: section headers, option lines,
  blank lines and comment lines. Three features are outside the fragment, and the model
  answers \<open>Outside_model\<close> where the input uses one: a continuation line (a line
  indented deeper than the option line before it), the section \<open>[DEFAULT]\<close>, and a
  value with a \<open>%\<close> in it (interpolation).
\<close>

datatype ini_error =
    MissingSectionHeaderError
  | DuplicateSectionError string
  | DuplicateOptionError string string
  | ParsingError
  | NoSectionError string
  | NoOptionError string string
  | FileNotFoundError string
  | Outside_model

text \<open>
  The local variables of \<open>_read\<close>: the sections of the parser, \<open>elements_added\<close> (its
  section names and its section-option pairs), \<open>sectname\<close> (\<open>cursect\<close> is the
  dictionary of that section, and \<open>None\<close> when \<open>sectname\<close> is), \<open>optname\<close>,
  \<open>indent_level\<close> and whether a \<open>ParsingError\<close> has been set up in \<open>e\<close>.
\<close>

record read_state =
  rd_sections :: "(string \<times> ini_options) list"
  rd_added_sections :: "string list"
  rd_added_options :: "(string \<times> string) list"
  rd_sectname :: "string option"
  rd_optname :: "string option"
  rd_indent_level :: nat
  rd_e :: bool

text \<open>A full-line comment: the stripped line starts with \<open>#\<close> or \<open>;\<close>.\<close>

fun is_comment :: "string \<Rightarrow> bool" where
  "is_comment [] = False"
| "is_comment (c # cs) = (c = CHR ''#'' \<or> c = CHR '';'')"

text \<open>\<open>NONSPACECRE.search(line).start()\<close>: the index of the first character that is no space.\<close>

definition cur_indent_level :: "string \<Rightarrow> nat" where
  "cur_indent_level line = length (takeWhile isspace line)"

text \<open>
  \<open>SECTCRE.match(value)\<close>, the pattern \<open>\[(?P<header>.+)\]\<close>: an opening bracket, then
  greedily at least one character, then a closing bracket. The result is the header.
\<close>

fun SECTCRE_match :: "string \<Rightarrow> string option" where
  "SECTCRE_match [] = None"
| "SECTCRE_match (c # rest) =
     (if c \<noteq> CHR ''['' then None
      else (case dropWhile (\<lambda>d. d \<noteq> CHR '']'') (rev rest) of
              [] \<Rightarrow> None
            | b # header_rev \<Rightarrow> (if header_rev = [] then None else Some (rev header_rev))))"

text \<open>
  \<open>OPTCRE.match(value)\<close>, the pattern \<open>(?P<option>.*?)\s*(?P<vi>=|:)\s*(?P<value>.*)$\<close>:
  the groups \<open>option\<close> and \<open>value\<close> around the first delimiter.
\<close>

definition is_delimiter :: "char \<Rightarrow> bool" where
  "is_delimiter c = (c = CHR ''='' \<or> c = CHR '':'')"

definition OPTCRE_match :: "string \<Rightarrow> (string \<times> string) option" where
  "OPTCRE_match v =
     (case dropWhile (\<lambda>c. \<not> is_delimiter c) v of
        [] \<Rightarrow> None
      | vi # after \<Rightarrow> Some (rstrip (takeWhile (\<lambda>c. \<not> is_delimiter c) v), lstrip after))"

text \<open>The branch of \<open>_read\<close> for a section header.\<close>

definition read_section_header :: "read_state \<Rightarrow> string \<Rightarrow> ini_error + read_state" where
  "read_section_header st name =
     (if name \<in> set (map fst (rd_sections st)) then
        (if name \<in> set (rd_added_sections st) then Inl (DuplicateSectionError name)
         else Inr (st\<lparr>rd_added_sections := name # rd_added_sections st,
                      rd_sectname := Some name, rd_optname := None\<rparr>))
      else if name = ''DEFAULT'' then Inl Outside_model
      else Inr (st\<lparr>rd_sections := rd_sections st @ [(name, [])],
                   rd_added_sections := name # rd_added_sections st,
                   rd_sectname := Some name, rd_optname := None\<rparr>))"

text \<open>The branch of \<open>_read\<close> for an option line of the section \<open>sect\<close>.\<close>

definition read_option_line :: "read_state \<Rightarrow> string \<Rightarrow> string \<Rightarrow> ini_error + read_state" where
  "read_option_line st sect v =
     (case OPTCRE_match v of
        None \<Rightarrow> Inr (st\<lparr>rd_e := True\<rparr>)
      | Some (opt, optval) \<Rightarrow>
          (let st1 = (if opt = [] then st\<lparr>rd_e := True\<rparr> else st);
               name = lower (rstrip opt)
           in if (sect, name) \<in> set (rd_added_options st1)
              then Inl (DuplicateOptionError sect name)
              else Inr (st1\<lparr>rd_added_options := (sect, name) # rd_added_options st1,
                            rd_optname := Some name,
                            rd_sections :=
                              AList.map_entry sect (AList.update name (strip optval))
                                (rd_sections st1)\<rparr>)))"

text \<open>The body of the loop of \<open>_read\<close> for one line.\<close>

definition read_line :: "read_state \<Rightarrow> string \<Rightarrow> ini_error + read_state" where
  "read_line st line =
     (let v = strip line in
      if v = [] \<or> is_comment v then Inr st
      else if rd_sectname st \<noteq> None \<and> rd_optname st \<noteq> None \<and> rd_optname st \<noteq> Some []
              \<and> cur_indent_level line > rd_indent_level st
      then Inl Outside_model
      else
        (let st1 = st\<lparr>rd_indent_level := cur_indent_level line\<rparr> in
         case SECTCRE_match v of
           Some name \<Rightarrow> read_section_header st1 name
         | None \<Rightarrow>
             (case rd_sectname st1 of
                None \<Rightarrow> Inl MissingSectionHeaderError
              | Some sect \<Rightarrow> read_option_line st1 sect v)))"

text \<open>The loop: an exception leaves it with the state reached before the raising line.\<close>

fun read_lines :: "read_state \<Rightarrow> string list \<Rightarrow> ini_error option \<times> read_state" where
  "read_lines st [] = (None, st)"
| "read_lines st (line # rest) =
     (case read_line st line of
        Inl err \<Rightarrow> (Some err, st)
      | Inr st' \<Rightarrow> read_lines st' rest)"

text \<open>
  \<open>_read(fp, fpname)\<close> on the text of \<open>fp\<close>: the exception raised, if any, and the
  parser after the call. What was parsed before an exception stays in the parser.
\<close>

definition ConfigParser_read_fp :: "string \<Rightarrow> ConfigParser \<Rightarrow> ini_error option \<times> ConfigParser" where
  "ConfigParser_read_fp text config =
     (case read_lines \<lparr>rd_sections = sections config, rd_added_sections = [],
                        rd_added_options = [], rd_sectname = None, rd_optname = None,
                        rd_indent_level = 0, rd_e = False\<rparr> (lines_of text) of
        (Some err, st) \<Rightarrow> (Some err, config\<lparr>sections := rd_sections st\<rparr>)
      | (None, st) \<Rightarrow>
          (if rd_e st then Some ParsingError else None, config\<lparr>sections := rd_sections st\<rparr>))"

definition ConfigParser_read_string :: "string \<Rightarrow> ConfigParser \<Rightarrow> ini_error option \<times> ConfigParser" where
  "ConfigParser_read_string s config = ConfigParser_read_fp s config"

text \<open>
  The file system: the text of each file that exists (what reading the file in text mode
  gives), and the log of the paths \<open>open\<close> has been called on.
\<close>

record filesystem =
  files :: "string \<Rightarrow> string option"
  opened :: "string list"

definition py_open :: "string \<Rightarrow> filesystem \<Rightarrow> string option \<times> filesystem" where
  "py_open path fs = (files fs path, fs\<lparr>opened := opened fs @ [path]\<rparr>)"

text \<open>\<open>read(filenames)\<close> on one file name: a file that cannot be opened is skipped silently.\<close>

definition ConfigParser_read ::
  "string \<Rightarrow> ConfigParser \<Rightarrow> filesystem \<Rightarrow> ini_error option \<times> ConfigParser \<times> filesystem" where
  "ConfigParser_read path config fs =
     (case py_open path fs of
        (None, fs') \<Rightarrow> (None, config, fs')
      | (Some text, fs') \<Rightarrow>
          (case ConfigParser_read_fp text config of (err, config') \<Rightarrow> (err, config', fs')))"

definition ConfigParser_sections :: "ConfigParser \<Rightarrow> string list" where
  "ConfigParser_sections config = map fst (sections config)"

definition ConfigParser_options :: "ConfigParser \<Rightarrow> string \<Rightarrow> ini_error + string list" where
  "ConfigParser_options config sect =
     (case map_of (sections config) sect of
        None \<Rightarrow> Inl (NoSectionError sect)
      | Some opts \<Rightarrow> Inr (map fst opts))"

definition ConfigParser_get :: "ConfigParser \<Rightarrow> string \<Rightarrow> string \<Rightarrow> ini_error + string" where
  "ConfigParser_get config sect opt =
     (case map_of (sections config) sect of
        None \<Rightarrow> Inl (NoSectionError sect)
      | Some opts \<Rightarrow>
          (case map_of opts (lower opt) of
             None \<Rightarrow> Inl (NoOptionError (lower opt) sect)
           | Some v \<Rightarrow> (if CHR ''%'' \<in> set v then Inl Outside_model else Inr v)))"

subsection \<open>\<open>IniLoader\<close>\<close>

text \<open>
  The dictionary \<open>load\<close> returns, as the list of its items in insertion order. The two
  functions are the inner and the outer dictionary comprehension.
\<close>

type_synonym ini_data = "(string \<times> ini_options) list"

fun load_options :: "ConfigParser \<Rightarrow> string \<Rightarrow> string list \<Rightarrow> ini_options \<Rightarrow> ini_error + ini_options" where
  "load_options config sect [] acc = Inr acc"
| "load_options config sect (opt # rest) acc =
     (case ConfigParser_get config sect opt of
        Inl err \<Rightarrow> Inl err
      | Inr v \<Rightarrow> load_options config sect rest (AList.update opt v acc))"

fun load_sections :: "ConfigParser \<Rightarrow> string list \<Rightarrow> ini_data \<Rightarrow> ini_error + ini_data" where
  "load_sections config [] acc = Inr acc"
| "load_sections config (sect # rest) acc =
     (case ConfigParser_options config sect of
        Inl err \<Rightarrow> Inl err
      | Inr opts \<Rightarrow>
          (case load_options config sect opts [] of
             Inl err \<Rightarrow> Inl err
           | Inr d \<Rightarrow> load_sections config rest (AList.update sect d acc)))"

text \<open>
  \<open>_add_section_head\<close>: open the file again and parse its text behind the header
  \<open>[__headless__]\<close> and a newline.
\<close>

definition IniLoader_add_section_head ::
  "ConfigParser \<Rightarrow> string \<Rightarrow> filesystem \<Rightarrow> ini_error option \<times> ConfigParser \<times> filesystem" where
  "IniLoader_add_section_head config path fs =
     (case py_open path fs of
        (None, fs') \<Rightarrow> (Some (FileNotFoundError path), config, fs')
      | (Some text, fs') \<Rightarrow>
          (case ConfigParser_read_string (''[__headless__]'' @ [CHR 0x0A] @ text) config of
             (err, config') \<Rightarrow> (err, config', fs')))"

text \<open>
  \<open>IniLoader.load\<close> on the instance whose attribute \<open>self.config\<close> is \<open>config\<close>: the
  dictionary returned or the exception raised, the attribute after the call, and the
  file system after the call.
\<close>

definition IniLoader_load ::
  "ConfigParser \<Rightarrow> string \<Rightarrow> filesystem \<Rightarrow> (ini_error + ini_data) \<times> ConfigParser \<times> filesystem" where
  "IniLoader_load config path fs =
     (case ConfigParser_read path config fs of
        (err, config1, fs1) \<Rightarrow>
          (case (if err = Some MissingSectionHeaderError
                 then IniLoader_add_section_head config1 path fs1
                 else (err, config1, fs1)) of
             (Some e, config2, fs2) \<Rightarrow> (Inl e, config2, fs2)
           | (None, config2, fs2) \<Rightarrow>
               (load_sections config2 (ConfigParser_sections config2) [], config2, fs2)))"

subsection \<open>Example files\<close>

text \<open>
  A file system with a file without a section header and two files with one section
  each, and nothing opened yet.
\<close>

definition example_files :: filesystem where
  "example_files =
     \<lparr>files = [''settings.ini'' \<mapsto> ''key=value'',
                ''a.ini'' \<mapsto> ''[a]'' @ [CHR 0x0A] @ ''k=v'',
                ''b.ini'' \<mapsto> ''[b]'' @ [CHR 0x0A] @ ''k=w''],
      opened = []\<rparr>"

section \<open>Properties of the factory\<close>

lemma find_loader_None:
  "\<forall>c \<in> set cs. x \<notin> set (SUPPORTED_EXTS c) \<Longrightarrow> find_loader cs x = None"
  by (induction cs) (simp_all add: check_extension_supported_def)

lemma find_loader_Some:
  "\<exists>c \<in> set cs. x \<in> set (SUPPORTED_EXTS c) \<Longrightarrow>
     \<exists>c. find_loader cs x = Some c \<and> c \<in> set cs \<and> x \<in> set (SUPPORTED_EXTS c)"
  by (induction cs) (auto simp: check_extension_supported_def)

lemma class_of_instantiate: "class_of (instantiate c) = c"
  by (cases c) (simp_all add: IniLoader_init_def)

lemma setter_falsy:
  "\<not> truthy arg \<Longrightarrow>
     target_file_exts_setter self arg out =
       (Inl (NoTargetFileExtensionsError NoTargetFileExtensionsError_msg), self,
        out @ [NoTargetFileExtensionsError_msg])"
  by (simp add: target_file_exts_setter_def NoTargetFileExtensionsError_init_def
      LoaderError_init_def)

lemma setter_list:
  "xs \<noteq> [] \<Longrightarrow>
     target_file_exts_setter self (PyList xs) out = (Inr (), self\<lparr>target_file_exts := xs\<rparr>, out)"
  by (simp add: target_file_exts_setter_def)

lemma setter_str:
  "s \<noteq> [] \<Longrightarrow>
     target_file_exts_setter self (PyStr s) out = (Inr (), self\<lparr>target_file_exts := [s]\<rparr>, out)"
  by (simp add: target_file_exts_setter_def)

lemma init_falsy:
  "\<not> truthy arg \<Longrightarrow>
     LoaderFactory_init arg out =
       (Inl (NoTargetFileExtensionsError NoTargetFileExtensionsError_msg),
        out @ [NoTargetFileExtensionsError_msg])"
  by (simp add: LoaderFactory_init_def setter_falsy)

lemma init_list:
  "E \<noteq> [] \<Longrightarrow> LoaderFactory_init (PyList E) out = (Inr \<lparr>target_file_exts = E\<rparr>, out)"
  by (simp add: LoaderFactory_init_def setter_list)

lemma init_str:
  "s \<noteq> [] \<Longrightarrow> LoaderFactory_init (PyStr s) out = (Inr \<lparr>target_file_exts = [s]\<rparr>, out)"
  by (simp add: LoaderFactory_init_def setter_str)

text \<open>
  Claim C1. For a non-empty collection \<open>E\<close> of extensions and an extension \<open>x\<close> in
  \<open>E\<close> that some known loader class supports, the factory constructed with \<open>E\<close>
  exists, and its \<open>get_loader x\<close> returns an instance of a known loader class whose
  \<open>check_extension_supported x\<close> returns \<open>True\<close>.
\<close>

theorem get_loader_returns_supporting_loader:
  assumes "E \<noteq> []" and "x \<in> set E"
    and "\<exists>c \<in> set subclasses. x \<in> set (SUPPORTED_EXTS c)"
  shows "\<exists>self inst.
           LoaderFactory_init (PyList E) out = (Inr self, out) \<and>
           get_loader subclasses self x out = (Inr (Some inst), out) \<and>
           class_of inst \<in> set subclasses \<and>
           check_extension_supported (class_of inst) x = Some True"
proof -
  from assms(3) obtain c where c: "find_loader subclasses x = Some c"
    "c \<in> set subclasses" "x \<in> set (SUPPORTED_EXTS c)"
    using find_loader_Some by blast
  have "get_loader subclasses \<lparr>target_file_exts = E\<rparr> x out = (Inr (Some (instantiate c)), out)"
    using assms(2) c(1) by (simp add: get_loader_def)
  moreover have "check_extension_supported (class_of (instantiate c)) x = Some True"
    using c(3) by (simp add: class_of_instantiate check_extension_supported_def)
  ultimately show ?thesis
    using init_list [OF assms(1)] c(2) by (auto simp: class_of_instantiate)
qed

theorem get_loader_returns_supporting_loader_witness:
  "[''.yml'', ''.yaml'', ''.ini''] \<noteq> [] \<and> ''.yml'' \<in> set [''.yml'', ''.yaml'', ''.ini''] \<and>
   (\<exists>c \<in> set Loader_subclasses. ''.yml'' \<in> set (SUPPORTED_EXTS c)) \<and>
   (\<exists>self inst.
      LoaderFactory_init (PyList [''.yml'', ''.yaml'', ''.ini'']) [] = (Inr self, []) \<and>
      get_loader Loader_subclasses self ''.yml'' [] = (Inr (Some inst), []) \<and>
      class_of inst \<in> set Loader_subclasses \<and>
      check_extension_supported (class_of inst) ''.yml'' = Some True)"
proof -
  have h1: "[''.yml'', ''.yaml'', ''.ini''] \<noteq> []" by simp
  have h2: "''.yml'' \<in> set [''.yml'', ''.yaml'', ''.ini'']" by simp
  have h3: "\<exists>c \<in> set Loader_subclasses. ''.yml'' \<in> set (SUPPORTED_EXTS c)"
    by (simp add: Loader_subclasses_def)
  show ?thesis
    using h1 h2 h3 get_loader_returns_supporting_loader [OF h1 h2 h3, of "[]"] by blast
qed

text \<open>
  Claim C2. For an extension \<open>z\<close> in the stored target set that no known loader class
  supports, \<open>get_loader z\<close> raises \<open>NoLoaderFoundError\<close> with \<open>z\<close> as its
  \<open>file_extension\<close>, which is not the result \<open>None\<close> of an untargeted extension.
\<close>

theorem get_loader_raises_NoLoaderFoundError:
  assumes "z \<in> set (target_file_exts self)"
    and "\<forall>c \<in> set subclasses. z \<notin> set (SUPPORTED_EXTS c)"
  shows "fst (get_loader subclasses self z out) = Inl (NoLoaderFoundError z (NoLoaderFoundError_msg z)) \<and>
         fst (get_loader subclasses self z out) \<noteq> Inr None"
  using assms find_loader_None [of subclasses z]
  by (simp add: get_loader_def NoLoaderFoundError_init_def)

theorem get_loader_raises_NoLoaderFoundError_witness:
  "''.noloader'' \<in> set (target_file_exts \<lparr>target_file_exts = [''.noloader'']\<rparr>) \<and>
   ''.noloader'' \<notin> set (SUPPORTED_EXTS YamlLoader) \<and>
   ''.noloader'' \<notin> set (SUPPORTED_EXTS IniLoader) \<and>
   fst (get_loader Loader_subclasses \<lparr>target_file_exts = [''.noloader'']\<rparr> ''.noloader'' []) =
     Inl (NoLoaderFoundError ''.noloader'' (NoLoaderFoundError_msg ''.noloader'')) \<and>
   fst (get_loader Loader_subclasses \<lparr>target_file_exts = [''.noloader'']\<rparr> ''.noloader'' []) \<noteq>
     Inr None"
proof -
  have h1: "''.noloader'' \<in> set (target_file_exts \<lparr>target_file_exts = [''.noloader'']\<rparr>)"
    by simp
  have h2: "\<forall>c \<in> set Loader_subclasses. ''.noloader'' \<notin> set (SUPPORTED_EXTS c)"
    by (simp add: Loader_subclasses_def)
  show ?thesis
    using h1 get_loader_raises_NoLoaderFoundError [OF h1 h2, of "[]"] by simp
qed

text \<open>
  Claim C3. For an extension \<open>y\<close> that is not in the stored target set, \<open>get_loader y\<close>
  returns \<open>None\<close> and raises nothing (and prints nothing), whatever the known loader
  classes are and whether or not one of them supports \<open>y\<close>.
\<close>

theorem get_loader_untargeted_returns_None:
  assumes "y \<notin> set (target_file_exts self)"
  shows "get_loader subclasses self y out = (Inr None, out)"
  using assms by (simp add: get_loader_def)

theorem get_loader_untargeted_returns_None_witness:
  "''.ini'' \<notin> set (target_file_exts \<lparr>target_file_exts = [''.yml'']\<rparr>) \<and>
   (\<exists>c \<in> set Loader_subclasses. ''.ini'' \<in> set (SUPPORTED_EXTS c)) \<and>
   get_loader Loader_subclasses \<lparr>target_file_exts = [''.yml'']\<rparr> ''.ini'' [] = (Inr None, [])"
proof -
  have h: "''.ini'' \<notin> set (target_file_exts \<lparr>target_file_exts = [''.yml'']\<rparr>)"
    by simp
  have s: "\<exists>c \<in> set Loader_subclasses. ''.ini'' \<in> set (SUPPORTED_EXTS c)"
    by (simp add: Loader_subclasses_def)
  show ?thesis
    using h s get_loader_untargeted_returns_None [OF h, of Loader_subclasses "[]"] by blast
qed

text \<open>
  Claim C4. With an empty or otherwise falsy argument (the empty collection, the empty
  string, \<open>None\<close>), the constructor raises \<open>NoTargetFileExtensionsError\<close>, and so does the
  setter on any existing factory.
\<close>

theorem empty_target_file_exts_raises:
  assumes "\<not> truthy arg"
  shows "fst (LoaderFactory_init arg out) =
           Inl (NoTargetFileExtensionsError NoTargetFileExtensionsError_msg) \<and>
         fst (target_file_exts_setter self arg out) =
           Inl (NoTargetFileExtensionsError NoTargetFileExtensionsError_msg)"
  using assms by (simp add: init_falsy setter_falsy)

theorem empty_target_file_exts_raises_witness:
  "\<not> truthy (PyList []) \<and>
   fst (LoaderFactory_init (PyList []) []) =
     Inl (NoTargetFileExtensionsError NoTargetFileExtensionsError_msg) \<and>
   fst (target_file_exts_setter \<lparr>target_file_exts = [''.yml'']\<rparr> (PyList []) []) =
     Inl (NoTargetFileExtensionsError NoTargetFileExtensionsError_msg)"
proof -
  have h: "\<not> truthy (PyList [])" by simp
  show ?thesis
    using h empty_target_file_exts_raises [OF h, of "[]" "\<lparr>target_file_exts = [''.yml'']\<rparr>"]
    by blast
qed

text \<open>
  Claim C6, at the input where the code leaves it: \<open>YamlLoader\<close> does not support
  \<open>.ini\<close>, and \<open>check_extension_supported\<close> returns Python's \<open>None\<close> there, not the
  boolean \<open>False\<close>; on a supported extension it returns the boolean \<open>True\<close>.
\<close>

theorem check_extension_supported_unsupported_is_None:
  "''.ini'' \<notin> set (SUPPORTED_EXTS YamlLoader) \<and>
   check_extension_supported YamlLoader ''.ini'' = None \<and>
   check_extension_supported YamlLoader ''.ini'' \<noteq> Some False \<and>
   check_extension_supported YamlLoader ''.yml'' = Some True"
  by (simp add: check_extension_supported_def)

text \<open>
  Claim C8 as the code has it. The outcome of \<open>get_loader\<close> (a loader of some class,
  \<open>None\<close>, or the error) is a function of the stored target set, the known loader
  classes and the extension: it is the same whatever has been printed before. When the
  call returns \<open>None\<close> or a loader, it prints nothing; when it raises
  \<open>NoLoaderFoundError\<close>, constructing the error prints its message, once.
\<close>

theorem get_loader_outcome_and_output:
  "fst (get_loader subclasses self x out) = fst (get_loader subclasses self x []) \<and>
   snd (get_loader subclasses self x out) =
     out @ (case fst (get_loader subclasses self x []) of
              Inl e \<Rightarrow> [NoLoaderFoundError_msg x]
            | Inr r \<Rightarrow> [])"
  by (simp add: get_loader_def NoLoaderFoundError_init_def LoaderError_init_def
      split: option.split)

text \<open>
  The claim C8 as it is written fails: a call that raises \<open>NoLoaderFoundError\<close> leaves a
  line on standard output.
\<close>

theorem get_loader_prints_counterexample:
  "snd (get_loader Loader_subclasses \<lparr>target_file_exts = [''.noloader'']\<rparr> ''.noloader'' []) \<noteq> []"
  by (simp add: get_loader_def Loader_subclasses_def check_extension_supported_def
      NoLoaderFoundError_init_def LoaderError_init_def)

text \<open>
  Claim C9. The setter validates as the constructor does and replaces the stored
  collection in one step: with a falsy argument both raise
  \<open>NoTargetFileExtensionsError\<close> and the setter leaves the factory as it was; with a
  non-empty collection both store that collection; with a non-empty string both store
  the one-element list of it.
\<close>

theorem target_file_exts_setter_atomic:
  "(\<not> truthy arg \<longrightarrow>
      target_file_exts_setter self arg out =
        (Inl (NoTargetFileExtensionsError NoTargetFileExtensionsError_msg), self,
         out @ [NoTargetFileExtensionsError_msg]) \<and>
      LoaderFactory_init arg out =
        (Inl (NoTargetFileExtensionsError NoTargetFileExtensionsError_msg),
         out @ [NoTargetFileExtensionsError_msg])) \<and>
   (xs \<noteq> [] \<longrightarrow>
      target_file_exts_setter self (PyList xs) out = (Inr (), self\<lparr>target_file_exts := xs\<rparr>, out) \<and>
      LoaderFactory_init (PyList xs) out = (Inr \<lparr>target_file_exts = xs\<rparr>, out)) \<and>
   (s \<noteq> [] \<longrightarrow>
      target_file_exts_setter self (PyStr s) out = (Inr (), self\<lparr>target_file_exts := [s]\<rparr>, out) \<and>
      LoaderFactory_init (PyStr s) out = (Inr \<lparr>target_file_exts = [s]\<rparr>, out))"
  by (simp add: setter_falsy setter_list setter_str init_falsy init_list init_str)

theorem target_file_exts_setter_atomic_witness:
  "\<not> truthy (PyList []) \<and> [''.ini''] \<noteq> [] \<and> ''.yaml'' \<noteq> [] \<and>
   target_file_exts_setter \<lparr>target_file_exts = [''.yml'']\<rparr> (PyList []) [] =
     (Inl (NoTargetFileExtensionsError NoTargetFileExtensionsError_msg),
      \<lparr>target_file_exts = [''.yml'']\<rparr>, [NoTargetFileExtensionsError_msg]) \<and>
   target_file_exts_setter \<lparr>target_file_exts = [''.yml'']\<rparr> (PyList [''.ini'']) [] =
     (Inr (), \<lparr>target_file_exts = [''.ini'']\<rparr>, []) \<and>
   target_file_exts_setter \<lparr>target_file_exts = [''.yml'']\<rparr> (PyStr ''.yaml'') [] =
     (Inr (), \<lparr>target_file_exts = [''.yaml'']\<rparr>, [])"
proof -
  have h1: "\<not> truthy (PyList [])" by simp
  have h2: "[''.ini''] \<noteq> []" by simp
  have h3: "''.yaml'' \<noteq> []" by simp
  show ?thesis
    using h1 h2 h3
      target_file_exts_setter_atomic [of "PyList []" "\<lparr>target_file_exts = [''.yml'']\<rparr>" "[]"
        "[''.ini'']" "''.yaml''"]
    by simp
qed

text \<open>
  Claim C10. Constructing the factory with a bare extension string \<open>s\<close> (any
  non-empty string, \<open>.yml\<close> for one) succeeds and prints nothing, and the stored
  \<open>target_file_exts\<close> is the one-element list \<open>[s]\<close>: the string is wrapped, and it is
  not stored as a string.
\<close>

theorem LoaderFactory_init_wraps_string:
  assumes "s \<noteq> []"
  shows "LoaderFactory_init (PyStr s) out = (Inr \<lparr>target_file_exts = [s]\<rparr>, out)"
  using assms by (simp add: LoaderFactory_init_def target_file_exts_setter_def)

theorem LoaderFactory_init_wraps_string_witness:
  "''.yml'' \<noteq> [] \<and>
   LoaderFactory_init (PyStr ''.yml'') [] = (Inr \<lparr>target_file_exts = [''.yml'']\<rparr>, [])"
proof -
  have h: "''.yml'' \<noteq> []" by simp
  show ?thesis
    using h LoaderFactory_init_wraps_string [OF h, of "[]"] by simp
qed

section \<open>Properties of the INI loader\<close>

subsection \<open>A missing section header leaves the parser as it was\<close>

lemma read_line_keeps_sectname:
  "read_line st l = Inr st' \<Longrightarrow> rd_sectname st \<noteq> None \<Longrightarrow> rd_sectname st' \<noteq> None"
  by (auto simp: read_line_def Let_def read_section_header_def read_option_line_def
      split: if_splits option.splits prod.splits)

lemma read_line_not_missing:
  "rd_sectname st \<noteq> None \<Longrightarrow> read_line st l \<noteq> Inl MissingSectionHeaderError"
  by (auto simp: read_line_def Let_def read_section_header_def read_option_line_def
      split: if_splits option.splits prod.splits)

lemma read_line_before_header:
  "read_line st l = Inr st' \<Longrightarrow> rd_sectname st' = None \<Longrightarrow> rd_sections st' = rd_sections st"
  by (auto simp: read_line_def Let_def read_section_header_def read_option_line_def
      split: if_splits option.splits prod.splits)

lemma read_lines_not_missing:
  "rd_sectname st \<noteq> None \<Longrightarrow> fst (read_lines st ls) \<noteq> Some MissingSectionHeaderError"
proof (induction ls arbitrary: st)
  case Nil
  then show ?case by simp
next
  case (Cons l ls)
  show ?case
  proof (cases "read_line st l")
    case (Inl err)
    then show ?thesis using read_line_not_missing [OF Cons.prems, of l] by auto
  next
    case (Inr st')
    then show ?thesis
      using Cons.IH [of st'] read_line_keeps_sectname [OF Inr Cons.prems] by simp
  qed
qed

lemma read_lines_missing_unchanged:
  "fst (read_lines st ls) = Some MissingSectionHeaderError \<Longrightarrow>
     rd_sections (snd (read_lines st ls)) = rd_sections st"
proof (induction ls arbitrary: st)
  case Nil
  then show ?case by simp
next
  case (Cons l ls)
  show ?case
  proof (cases "read_line st l")
    case (Inl err)
    then show ?thesis by simp
  next
    case (Inr st')
    show ?thesis
    proof (cases "rd_sectname st'")
      case None
      then have "rd_sections st' = rd_sections st"
        using read_line_before_header [OF Inr] by simp
      then show ?thesis using Cons Inr by simp
    next
      case (Some a)
      then show ?thesis using read_lines_not_missing [of st' ls] Cons.prems Inr by simp
    qed
  qed
qed

lemma read_fp_missing_unchanged:
  "fst (ConfigParser_read_fp text config) = Some MissingSectionHeaderError \<Longrightarrow>
     snd (ConfigParser_read_fp text config) = config"
  using read_lines_missing_unchanged
    [of "\<lparr>rd_sections = sections config, rd_added_sections = [], rd_added_options = [],
          rd_sectname = None, rd_optname = None, rd_indent_level = 0, rd_e = False\<rparr>"
        "lines_of text"]
  by (auto simp: ConfigParser_read_fp_def split: prod.splits option.splits if_splits)

text \<open>
  The repair in general: when the first parse of a file raises
  \<open>MissingSectionHeaderError\<close>, \<open>load\<close> opens the file a second time, parses its text
  behind the header line once, and returns the dictionary of that parse or raises what
  that parse raises.
\<close>

lemma IniLoader_load_repair:
  assumes "files fs path = Some text"
    and "fst (ConfigParser_read_fp text config) = Some MissingSectionHeaderError"
  shows "IniLoader_load config path fs =
           (case ConfigParser_read_string (''[__headless__]'' @ [CHR 0x0A] @ text) config of
              (Some e, config') \<Rightarrow> (Inl e, config', fs\<lparr>opened := opened fs @ [path, path]\<rparr>)
            | (None, config') \<Rightarrow>
                (load_sections config' (ConfigParser_sections config') [], config',
                 fs\<lparr>opened := opened fs @ [path, path]\<rparr>))"
proof -
  have "ConfigParser_read_fp text config = (Some MissingSectionHeaderError, config)"
    using assms(2) read_fp_missing_unchanged [OF assms(2)]
    by (cases "ConfigParser_read_fp text config") simp
  then show ?thesis
    using assms(1)
    by (simp add: IniLoader_load_def ConfigParser_read_def py_open_def
        IniLoader_add_section_head_def split: prod.splits option.splits)
qed

subsection \<open>The file \<open>key=value\<close>\<close>






text \<open>
  What does hold of \<open>load\<close>: its result and the parser it leaves are determined by the
  parser it starts from and the text of the file at the path. Nothing else of the file
  system matters.
\<close>

lemma IniLoader_load_depends_on_config_and_text:
  assumes "files fs path = files fs' path"
  shows "fst (IniLoader_load config path fs) = fst (IniLoader_load config path fs') \<and>
         fst (snd (IniLoader_load config path fs)) = fst (snd (IniLoader_load config path fs'))"
  using assms
  by (simp add: IniLoader_load_def ConfigParser_read_def py_open_def
      IniLoader_add_section_head_def split: prod.splits option.splits)

text \<open>
  Claim C7, at the input where the code leaves it. The parser of an \<open>IniLoader\<close> is made
  once, in the constructor, and \<open>load\<close> parses every file into it. A new instance
  returns for \<open>b.ini\<close> the one section of that file; the instance that has loaded
  \<open>a.ini\<close> before returns for \<open>b.ini\<close> the section of \<open>a.ini\<close> as well.
\<close>

theorem IniLoader_load_keeps_previous_file:
  "fst (IniLoader_load ConfigParser_init ''b.ini'' example_files) =
     Inr [(''b'', [(''k'', ''w'')])] \<and>
   (case IniLoader_load ConfigParser_init ''a.ini'' example_files of
      (r, config, fs) \<Rightarrow> fst (IniLoader_load config ''b.ini'' fs)) =
     Inr [(''a'', [(''k'', ''v'')]), (''b'', [(''k'', ''w'')])]"
  by code_simp

end
